theory Spec2Isabelle
  imports Main
begin

section \<open>Wire and store types (frontend/src/types)\<close>

text \<open>
  The voice client keeps one zustand store (\<open>useVoiceStore\<close>) and one React hook
  (\<open>useVoiceChat\<close>) that owns the WebSocket and the MediaRecorder. The store is modelled
  as a record that every action maps to a new record; the hook is modelled as a world
  that holds the store next to the objects the hook's refs point to.
\<close>

datatype role = User | Assistant

datatype urgency = Low | Medium | High | Emergency

datatype connection_status = Disconnected | Connecting | Connected | Error

text \<open>
  \<open>Record<string, any>\<close> as delivered by \<open>JSON.parse\<close>: keys in document order. The spec
  fixes the values to strings.
\<close>

type_synonym entities = "(string \<times> string) list"

text \<open>
  \<open>VoiceMessage\<close>. The field \<open>id\<close> is \<open>msg_id\<close> here (\<open>id\<close> is the identity function of
  HOL); an optional field that is \<open>undefined\<close> is \<open>None\<close>.
\<close>

record VoiceMessage =
  msg_id :: string
  type :: role
  content :: string
  timestamp :: string
  confidence :: "int option"
  intent :: "string option"
  entities :: "entities option"
  urgency :: "urgency option"
  isAudio :: "bool option"
  processing :: "bool option"

text \<open>The \<open>ai_response\<close> object of a \<open>VoiceResponse\<close>; its fields \<open>text\<close> and \<open>intent\<close>
  are \<open>ai_text\<close> and \<open>ai_intent\<close> here. \<open>extracted_info\<close> is declared
  required, but the handler tests it before use, and an object is never falsy, so the
  falsy case is its absence.\<close>

record AiResponse =
  ai_text :: string
  ai_intent :: string
  extracted_info :: "entities option"

record Appointment =
  appt_id :: string
  patient_id :: string
  patient_name :: string
  patient_phone :: "string option"
  doctor_name :: string
  appointment_date :: string
  duration_minutes :: int
  appt_status :: string
  appt_notes :: "string option"
  created_at :: string
  updated_at :: string

record AppointmentAction =
  status :: string
  message :: string
  appointment :: "Appointment option"
  available_slots :: "string list option"
  missing :: "string list option"

text \<open>\<open>VoiceResponse\<close>; its fields carry the prefix \<open>r_\<close> because the store and the
  message have fields of the same names.\<close>

record VoiceResponse =
  r_transcript :: "string option"
  r_ai_response :: "AiResponse option"
  r_audio_response :: "string option"
  r_timestamp :: string
  r_error :: "string option"
  r_appointment_action :: "AppointmentAction option"

text \<open>\<open>VoiceStore\<close>: the fields of \<open>VoiceState\<close> and the optional ones the store adds.\<close>

record VoiceStore =
  isRecording :: bool
  isProcessing :: bool
  isPlaying :: bool
  messages :: "VoiceMessage list"
  currentTranscript :: string
  connectionStatus :: connection_status
  currentIntent :: "string option"
  extractedEntities :: "entities option"
  suggestions :: "string list option"
  urgencyLevel :: "urgency option"
  error :: "string option"

text \<open>What a handler does outside the store: console output, audio handed to an output
  element, the alert box.\<close>

datatype effect =
    ConsoleLog string
  | ConsoleError string
  | Alert string
  | AudioElementPlay string
  | AudioContextPlay string

text \<open>
  What the host supplies while one handler runs: the value of the \<open>k\<close>-th evaluation of
  \<open>`msg_${Date.now()}_${Math.random()}`\<close>, the value of \<open>new Date().toISOString()\<close>,
  \<open>atob\<close>, which throws on input that is not base64 (\<open>None\<close>), \<open>btoa\<close>, whether
  \<open>decodeAudioData\<close> accepts a buffer, how many arguments a call may spread
  (\<open>String.fromCharCode(...bytes)\<close> throws a RangeError beyond it), and \<open>JSON.parse\<close>
  followed by the cast to \<open>VoiceResponse\<close>, which throws on malformed text (\<open>None\<close>).
\<close>

record host =
  msgId :: "nat \<Rightarrow> string"
  nowISO :: string
  atob :: "string \<Rightarrow> string option"
  btoa :: "string \<Rightarrow> string"
  decodeAudioData :: "string \<Rightarrow> bool"
  spreadLimit :: nat
  JSON_parse :: "string \<Rightarrow> VoiceResponse option"

section \<open>JavaScript truthiness\<close>

text \<open>A string is truthy when it is not empty; \<open>undefined\<close> is falsy.\<close>

fun truthy :: "string option \<Rightarrow> bool" where
  "truthy None = False"
| "truthy (Some s) = (s \<noteq> [])"

section \<open>The store (stores/voiceStore)\<close>

definition initialStore :: VoiceStore where
  "initialStore =
     \<lparr>isRecording = False, isProcessing = False, isPlaying = False, messages = [],
      currentTranscript = [], connectionStatus = Disconnected, currentIntent = None,
      extractedEntities = None, suggestions = None, urgencyLevel = None, error = None\<rparr>"

definition setRecording :: "bool \<Rightarrow> VoiceStore \<Rightarrow> VoiceStore" where
  "setRecording b s = s\<lparr>isRecording := b\<rparr>"

definition setProcessing :: "bool \<Rightarrow> VoiceStore \<Rightarrow> VoiceStore" where
  "setProcessing b s = s\<lparr>isProcessing := b\<rparr>"

definition setPlaying :: "bool \<Rightarrow> VoiceStore \<Rightarrow> VoiceStore" where
  "setPlaying b s = s\<lparr>isPlaying := b\<rparr>"

definition setConnectionStatus :: "connection_status \<Rightarrow> VoiceStore \<Rightarrow> VoiceStore" where
  "setConnectionStatus c s = s\<lparr>connectionStatus := c\<rparr>"

definition setError :: "string option \<Rightarrow> VoiceStore \<Rightarrow> VoiceStore" where
  "setError e s = s\<lparr>error := e\<rparr>"

text \<open>\<open>addMessage\<close> appends the message under a freshly generated id, passed in as
  \<open>mid\<close>; whatever id the argument had is overwritten.\<close>

definition addMessage :: "string \<Rightarrow> VoiceMessage \<Rightarrow> VoiceStore \<Rightarrow> VoiceStore" where
  "addMessage mid m s = s\<lparr>messages := messages s @ [m\<lparr>msg_id := mid\<rparr>]\<rparr>"

text \<open>\<open>updateLastMessage\<close> patches the last message; the patch is a function on
  messages, and an empty log stays empty.\<close>

definition updateLastMessage :: "(VoiceMessage \<Rightarrow> VoiceMessage) \<Rightarrow> VoiceStore \<Rightarrow> VoiceStore" where
  "updateLastMessage updates s =
     (case rev (messages s) of
        [] \<Rightarrow> s
      | m # before \<Rightarrow> s\<lparr>messages := rev before @ [updates m]\<rparr>)"

definition setCurrentTranscript :: "string \<Rightarrow> VoiceStore \<Rightarrow> VoiceStore" where
  "setCurrentTranscript t s = s\<lparr>currentTranscript := t\<rparr>"

definition updateCurrentIntent :: "string \<Rightarrow> VoiceStore \<Rightarrow> VoiceStore" where
  "updateCurrentIntent i s = s\<lparr>currentIntent := Some i\<rparr>"

definition updateExtractedEntities :: "entities \<Rightarrow> VoiceStore \<Rightarrow> VoiceStore" where
  "updateExtractedEntities e s = s\<lparr>extractedEntities := Some e\<rparr>"

definition updateSuggestions :: "string list \<Rightarrow> VoiceStore \<Rightarrow> VoiceStore" where
  "updateSuggestions xs s = s\<lparr>suggestions := Some xs\<rparr>"

definition updateUrgencyLevel :: "urgency \<Rightarrow> VoiceStore \<Rightarrow> VoiceStore" where
  "updateUrgencyLevel u s = s\<lparr>urgencyLevel := Some u\<rparr>"

definition clearMessages :: "VoiceStore \<Rightarrow> VoiceStore" where
  "clearMessages s =
     s\<lparr>messages := [], currentTranscript := [], currentIntent := None,
       extractedEntities := None, suggestions := None\<rparr>"

definition reset :: "VoiceStore \<Rightarrow> VoiceStore" where
  "reset s =
     s\<lparr>messages := [], currentTranscript := [], currentIntent := None,
       extractedEntities := None, suggestions := None, urgencyLevel := None,
       error := None, isRecording := False, isProcessing := False, isPlaying := False\<rparr>"

subsection \<open>processVoiceResponse\<close>

text \<open>The three message literals handed to \<open>addMessage\<close>. They have no id yet.\<close>

definition errorMessage :: "string \<Rightarrow> string \<Rightarrow> VoiceMessage" where
  "errorMessage e now =
     \<lparr>msg_id = [], type = Assistant,
      content = ''I'm sorry, there was an error: '' @ e, timestamp = now,
      confidence = None, intent = None, entities = None, urgency = None,
      isAudio = None, processing = None\<rparr>"

definition userMessage :: "string \<Rightarrow> string \<Rightarrow> VoiceMessage" where
  "userMessage transcript ts =
     \<lparr>msg_id = [], type = User, content = transcript, timestamp = ts,
      confidence = None, intent = None, entities = None, urgency = None,
      isAudio = Some True, processing = None\<rparr>"

definition aiMessage :: "VoiceResponse \<Rightarrow> AiResponse \<Rightarrow> VoiceMessage" where
  "aiMessage response ai =
     \<lparr>msg_id = [], type = Assistant, content = ai_text ai,
      timestamp = r_timestamp response, confidence = None,
      intent = Some (ai_intent ai), entities = extracted_info ai, urgency = None,
      isAudio = Some (truthy (r_audio_response response)), processing = None\<rparr>"

text \<open>\<open>if (response.transcript)\<close>: the user message, and how many ids were drawn.\<close>

definition addUserMessage :: "host \<Rightarrow> VoiceResponse \<Rightarrow> VoiceStore \<Rightarrow> VoiceStore \<times> nat" where
  "addUserMessage h response s =
     (case r_transcript response of
        None \<Rightarrow> (s, 0)
      | Some t \<Rightarrow>
          if t = [] then (s, 0)
          else (addMessage (msgId h 0) (userMessage t (r_timestamp response)) s, 1))"

text \<open>\<open>if (response.ai_response?.text)\<close>: the assistant message, then the intent when
  it is truthy and the entities when they are there.\<close>

definition processAiResponse :: "host \<Rightarrow> nat \<Rightarrow> VoiceResponse \<Rightarrow> VoiceStore \<Rightarrow> VoiceStore" where
  "processAiResponse h k response s =
     (case r_ai_response response of
        None \<Rightarrow> s
      | Some ai \<Rightarrow>
          if ai_text ai = [] then s
          else
            let s1 = addMessage (msgId h k) (aiMessage response ai) s;
                s2 = (if ai_intent ai \<noteq> [] then updateCurrentIntent (ai_intent ai) s1 else s1)
            in (case extracted_info ai of
                  None \<Rightarrow> s2
                | Some e \<Rightarrow> updateExtractedEntities e s2))"

text \<open>
  \<open>if (audioData)\<close>: the payload is decoded inside a \<open>try\<close>; \<open>playAudio()\<close> then runs up
  to its first \<open>await\<close>, which sets the playing flag and hands the bytes to an
  \<open>Audio\<close> element. What follows the \<open>await\<close> are the two events below.
\<close>

definition playAudio :: "host \<Rightarrow> VoiceResponse \<Rightarrow> VoiceStore \<Rightarrow> VoiceStore \<times> effect list" where
  "playAudio h response s =
     (case r_audio_response response of
        None \<Rightarrow> (s, [])
      | Some audioData \<Rightarrow>
          if audioData = [] then (s, [])
          else (case atob h audioData of
                  None \<Rightarrow> (s, [ConsoleError ''Error playing audio:''])
                | Some bytes \<Rightarrow> (setPlaying True s, [AudioElementPlay bytes])))"

definition audio_play_rejected :: "VoiceStore \<Rightarrow> VoiceStore \<times> effect list" where
  "audio_play_rejected s = (setPlaying False s, [ConsoleError ''Audio play failed:''])"

definition audio_onended :: "VoiceStore \<Rightarrow> VoiceStore" where
  "audio_onended s = setPlaying False s"

definition logAppointmentAction :: "VoiceResponse \<Rightarrow> effect list" where
  "logAppointmentAction response =
     (case r_appointment_action response of
        None \<Rightarrow> []
      | Some a \<Rightarrow> [ConsoleLog ''Appointment action:''])"

text \<open>The branch taken when \<open>response.error\<close> is truthy; it returns at once.\<close>

definition handleError :: "host \<Rightarrow> string \<Rightarrow> VoiceStore \<Rightarrow> VoiceStore \<times> effect list" where
  "handleError h e s =
     (addMessage (msgId h 0) (errorMessage e (nowISO h)) (setError (Some e) s), [])"

text \<open>The \<open>else\<close> branch and everything after it.\<close>

definition handleFields :: "host \<Rightarrow> VoiceResponse \<Rightarrow> VoiceStore \<Rightarrow> VoiceStore \<times> effect list" where
  "handleFields h response s =
     (let s1 = setError None s;
          (s2, k) = addUserMessage h response s1;
          s3 = processAiResponse h k response s2;
          (s4, fx) = playAudio h response s3
      in (s4, fx @ logAppointmentAction response))"

definition processVoiceResponse :: "host \<Rightarrow> VoiceResponse \<Rightarrow> VoiceStore \<Rightarrow> VoiceStore \<times> effect list" where
  "processVoiceResponse h response s =
     (let s1 = setProcessing False s
      in (case r_error response of
            None \<Rightarrow> handleFields h response s1
          | Some e \<Rightarrow> if e \<noteq> [] then handleError h e s1 else handleFields h response s1))"


section \<open>The hook (hooks/useVoiceChat)\<close>

text \<open>
  The hook holds three refs: the current WebSocket, the current MediaRecorder and the
  chunk buffer. A ref is an index into the list of objects of its kind that were ever
  created, because an object that the ref no longer points to stays alive with its
  handlers attached. The hook reads \<open>isRecording\<close> from the store at its last render;
  the model reads the store itself.
\<close>

datatype ready_state = CONNECTING | OPEN | CLOSING | CLOSED

text \<open>The one outbound message, \<open>{type: 'audio', audio: <base64>}\<close>.\<close>

datatype outbound = AudioMessage string

record WebSocket =
  readyState :: ready_state
  sent :: "outbound list"

datatype recording_state = Inactive | Recording | Paused

record MediaRecorder =
  rec_state :: recording_state
  rec_stream :: nat

record world =
  store :: VoiceStore
  sockets :: "WebSocket list"
  websocketRef :: "nat option"
  streams :: "bool list"
  recorders :: "MediaRecorder list"
  mediaRecorderRef :: "nat option"
  audioChunksRef :: "string list"
  pendingGetUserMedia :: nat
  pendingSends :: "string list"
  reconnectTimers :: nat
  trace :: "effect list"

text \<open>\<open>streams\<close> holds, for each media stream acquired, whether its tracks are still
  live. \<open>pendingGetUserMedia\<close> counts the \<open>getUserMedia\<close> requests not yet settled,
  \<open>pendingSends\<close> holds the blobs whose \<open>arrayBuffer()\<close> is awaited, and
  \<open>reconnectTimers\<close> counts the \<open>setTimeout\<close> callbacks not yet run.\<close>

definition initialWorld :: world where
  "initialWorld =
     \<lparr>store = initialStore, sockets = [], websocketRef = None, streams = [],
      recorders = [], mediaRecorderRef = None, audioChunksRef = [],
      pendingGetUserMedia = 0, pendingSends = [], reconnectTimers = 0, trace = []\<rparr>"

fun map_at :: "nat \<Rightarrow> ('a \<Rightarrow> 'a) \<Rightarrow> 'a list \<Rightarrow> 'a list" where
  "map_at n f [] = []"
| "map_at 0 f (x # xs) = f x # xs"
| "map_at (Suc n) f (x # xs) = x # map_at n f xs"

fun lookup_at :: "nat \<Rightarrow> 'a list \<Rightarrow> 'a option" where
  "lookup_at n [] = None"
| "lookup_at 0 (x # xs) = Some x"
| "lookup_at (Suc n) (x # xs) = lookup_at n xs"

text \<open>\<open>websocketRef.current?.readyState === WebSocket.OPEN\<close>\<close>

definition currentSocketOpen :: "world \<Rightarrow> bool" where
  "currentSocketOpen w =
     (case websocketRef w of
        None \<Rightarrow> False
      | Some i \<Rightarrow>
          (case lookup_at i (sockets w) of
             None \<Rightarrow> False
           | Some ws \<Rightarrow> readyState ws = OPEN))"

text \<open>Sockets that hold or are opening a transport.\<close>

definition liveSockets :: "world \<Rightarrow> nat" where
  "liveSockets w =
     length (filter (\<lambda>ws. readyState ws = CONNECTING \<or> readyState ws = OPEN) (sockets w))"

definition emit :: "effect list \<Rightarrow> world \<Rightarrow> world" where
  "emit fx w = w\<lparr>trace := trace w @ fx\<rparr>"

subsection \<open>connect and the socket's handlers\<close>

definition connect :: "world \<Rightarrow> world" where
  "connect w =
     (if currentSocketOpen w then w
      else w\<lparr>store := setConnectionStatus Connecting (store w),
             sockets := sockets w @ [\<lparr>readyState = CONNECTING, sent = []\<rparr>],
             websocketRef := Some (length (sockets w))\<rparr>)"

text \<open>The open event of socket \<open>i\<close>: the browser has set its state to OPEN.\<close>

definition ws_onopen :: "nat \<Rightarrow> world \<Rightarrow> world" where
  "ws_onopen i w =
     emit [ConsoleLog ''Connected to voice chat'']
       (w\<lparr>sockets := map_at i (\<lambda>ws. ws\<lparr>readyState := OPEN\<rparr>) (sockets w),
          store := setConnectionStatus Connected (store w)\<rparr>)"

text \<open>\<open>playAudioResponse\<close>: an async function whose body is one \<open>try\<close>; it touches no
  store field. A payload that \<open>atob\<close> or \<open>decodeAudioData\<close> refuses is logged.\<close>

definition playAudioResponse :: "host \<Rightarrow> string \<Rightarrow> effect list" where
  "playAudioResponse h base64Audio =
     (case atob h base64Audio of
        None \<Rightarrow> [ConsoleError ''Error playing audio:'']
      | Some audioData \<Rightarrow>
          if decodeAudioData h audioData then [AudioContextPlay audioData]
          else [ConsoleError ''Error playing audio:''])"

text \<open>The message event: \<open>event.data\<close> is \<open>d\<close>.\<close>

definition ws_onmessage :: "host \<Rightarrow> string \<Rightarrow> world \<Rightarrow> world" where
  "ws_onmessage h d w =
     (case JSON_parse h d of
        None \<Rightarrow>
          emit [ConsoleError ''Error parsing WebSocket message:'']
            (w\<lparr>store := setProcessing False (store w)\<rparr>)
      | Some response \<Rightarrow>
          let (s, fx) = processVoiceResponse h response (store w);
              fx2 = (case r_audio_response response of
                       None \<Rightarrow> []
                     | Some a \<Rightarrow> if a = [] then [] else playAudioResponse h a)
          in emit (fx @ fx2) (w\<lparr>store := setProcessing False s\<rparr>))"

definition ws_onerror :: "world \<Rightarrow> world" where
  "ws_onerror w =
     emit [ConsoleError ''WebSocket error:'']
       (w\<lparr>store := setProcessing False (setConnectionStatus Error (store w))\<rparr>)"

text \<open>The close event of socket \<open>i\<close>: the browser has set its state to CLOSED.\<close>

definition ws_onclose :: "nat \<Rightarrow> world \<Rightarrow> world" where
  "ws_onclose i w =
     emit [ConsoleLog ''Disconnected from voice chat'']
       (w\<lparr>sockets := map_at i (\<lambda>ws. ws\<lparr>readyState := CLOSED\<rparr>) (sockets w),
          store := setProcessing False (setConnectionStatus Disconnected (store w))\<rparr>)"

subsection \<open>Sending\<close>

text \<open>\<open>sendAudioToServer\<close> up to its \<open>await\<close>: the guard, or the blob left pending.\<close>

definition sendAudioToServer :: "string \<Rightarrow> world \<Rightarrow> world" where
  "sendAudioToServer audioBlob w =
     (if \<not> currentSocketOpen w then
        emit [ConsoleError ''WebSocket not connected'']
          (w\<lparr>store := setProcessing False (store w)\<rparr>)
      else w\<lparr>pendingSends := pendingSends w @ [audioBlob]\<rparr>)"

definition sendFailed :: "world \<Rightarrow> world" where
  "sendFailed w =
     emit [ConsoleError ''Error sending audio:'']
       (w\<lparr>store := setProcessing False (store w)\<rparr>)"

text \<open>
  \<open>sendAudioToServer\<close> after its \<open>await\<close>, for the oldest pending blob. The encoding
  throws when the blob has more bytes than a call may spread; \<open>send\<close> throws on a null
  ref and on a socket that is still CONNECTING, and drops the frame on one that is
  CLOSING or CLOSED.
\<close>

definition sendAudio_resume :: "host \<Rightarrow> world \<Rightarrow> world" where
  "sendAudio_resume h w =
     (case pendingSends w of
        [] \<Rightarrow> w
      | audioBlob # rest \<Rightarrow>
          let w1 = w\<lparr>pendingSends := rest\<rparr>
          in if spreadLimit h < length audioBlob then sendFailed w1
             else (case websocketRef w1 of
                     None \<Rightarrow> sendFailed w1
                   | Some i \<Rightarrow>
                       (case lookup_at i (sockets w1) of
                          None \<Rightarrow> sendFailed w1
                        | Some ws \<Rightarrow>
                            if readyState ws = CONNECTING then sendFailed w1
                            else if readyState ws = OPEN then
                              w1\<lparr>sockets :=
                                   map_at i (\<lambda>x. x\<lparr>sent := sent x @ [AudioMessage (btoa h audioBlob)]\<rparr>)
                                     (sockets w1)\<rparr>
                            else w1)))"

subsection \<open>Recording\<close>

definition microphoneFailed :: "world \<Rightarrow> world" where
  "microphoneFailed w =
     emit [ConsoleError ''Error starting recording:'',
          Alert ''Unable to access microphone. Please check permissions.''] w"

text \<open>
  \<open>startRecording\<close> up to its \<open>await\<close>: it asks for the microphone and suspends. No
  flag is read on the way.
\<close>

definition startRecording :: "world \<Rightarrow> world" where
  "startRecording w = w\<lparr>pendingGetUserMedia := Suc (pendingGetUserMedia w)\<rparr>"

text \<open>
  \<open>startRecording\<close> after its \<open>await\<close>, for one pending request: \<open>granted\<close> says
  whether \<open>getUserMedia\<close> resolved, \<open>webm\<close> whether the \<open>MediaRecorder\<close> constructor
  accepts the mime type \<open>audio/webm\<close>.
\<close>

definition startRecording_resume :: "bool \<Rightarrow> bool \<Rightarrow> world \<Rightarrow> world" where
  "startRecording_resume granted webm w =
     (case pendingGetUserMedia w of
        0 \<Rightarrow> w
      | Suc n \<Rightarrow>
          let w0 = w\<lparr>pendingGetUserMedia := n\<rparr>
          in if \<not> granted then microphoneFailed w0
             else
               let w1 = w0\<lparr>streams := streams w0 @ [True], audioChunksRef := []\<rparr>
               in if \<not> webm then microphoneFailed w1
                  else w1\<lparr>recorders :=
                            recorders w0 @ [\<lparr>rec_state = Recording, rec_stream = length (streams w0)\<rparr>],
                          mediaRecorderRef := Some (length (recorders w0)),
                          store := setRecording True (store w0)\<rparr>)"

definition recorder_ondataavailable :: "string \<Rightarrow> world \<Rightarrow> world" where
  "recorder_ondataavailable chunk w =
     (if 0 < length chunk then w\<lparr>audioChunksRef := audioChunksRef w @ [chunk]\<rparr> else w)"

definition stopRecording :: "world \<Rightarrow> world" where
  "stopRecording w =
     (case mediaRecorderRef w of
        None \<Rightarrow> w
      | Some i \<Rightarrow>
          if isRecording (store w) then
            w\<lparr>recorders := map_at i (\<lambda>r. r\<lparr>rec_state := Inactive\<rparr>) (recorders w),
              store := setProcessing True (setRecording False (store w))\<rparr>
          else w)"

text \<open>The stop event of recorder \<open>i\<close>: the chunks become one blob, the blob is sent,
  and the tracks of the recorder's stream are stopped.\<close>

definition recorder_onstop :: "nat \<Rightarrow> world \<Rightarrow> world" where
  "recorder_onstop i w =
     (let w1 = sendAudioToServer (concat (audioChunksRef w)) w
      in (case lookup_at i (recorders w1) of
            None \<Rightarrow> w1
          | Some r \<Rightarrow> w1\<lparr>streams := map_at (rec_stream r) (\<lambda>live. False) (streams w1)\<rparr>))"

definition toggleRecording :: "world \<Rightarrow> world" where
  "toggleRecording w =
     (if isRecording (store w) then stopRecording w else startRecording w)"

text \<open>Recorders that are capturing.\<close>

definition activeRecorders :: "world \<Rightarrow> nat" where
  "activeRecorders w = length (filter (\<lambda>r. rec_state r = Recording) (recorders w))"

subsection \<open>Reconnection, mount and unmount\<close>

text \<open>\<open>close()\<close> moves a socket that is CONNECTING or OPEN to CLOSING.\<close>

definition ws_close :: "WebSocket \<Rightarrow> WebSocket" where
  "ws_close ws =
     (if readyState ws = CONNECTING \<or> readyState ws = OPEN then ws\<lparr>readyState := CLOSING\<rparr>
      else ws)"

definition closeCurrent :: "world \<Rightarrow> world" where
  "closeCurrent w =
     (case websocketRef w of
        None \<Rightarrow> w
      | Some i \<Rightarrow> w\<lparr>sockets := map_at i ws_close (sockets w)\<rparr>)"

definition resetConnection :: "world \<Rightarrow> world" where
  "resetConnection w =
     (let w1 = (closeCurrent w)\<lparr>websocketRef := None\<rparr>
      in w1\<lparr>store := setError None (store w1), reconnectTimers := Suc (reconnectTimers w1)\<rparr>)"

text \<open>One pending \<open>setTimeout\<close> callback runs.\<close>

definition reconnectTimer_fires :: "world \<Rightarrow> world" where
  "reconnectTimer_fires w =
     (case reconnectTimers w of
        0 \<Rightarrow> w
      | Suc n \<Rightarrow> connect (w\<lparr>reconnectTimers := n\<rparr>))"

definition mount :: "bool \<Rightarrow> world \<Rightarrow> world" where
  "mount autoConnect w = (if autoConnect then connect w else w)"

definition unmount :: "world \<Rightarrow> world" where
  "unmount w = closeCurrent w"

subsection \<open>A run of inbound messages\<close>

text \<open>The message events of a run, each with what the host supplied while it was
  handled, in the order they arrive.\<close>

definition receive :: "(host \<times> string) list \<Rightarrow> world \<Rightarrow> world" where
  "receive ms w = foldl (\<lambda>w' (h, d). ws_onmessage h d w') w ms"

section \<open>Concrete hosts, responses and states\<close>

text \<open>A host that generates two ids, accepts every payload as base64 and as audio,
  and parses no text.\<close>

definition sampleHost :: host where
  "sampleHost =
     \<lparr>msgId = (\<lambda>k. if k = 0 then ''msg_1704103200000_0.25'' else ''msg_1704103200001_0.75''),
      nowISO = ''2024-01-01T10:00:02.000Z'',
      atob = (\<lambda>s. Some s), btoa = (\<lambda>s. s), decodeAudioData = (\<lambda>s. True),
      spreadLimit = 65536, JSON_parse = (\<lambda>d. None)\<rparr>"

text \<open>A store in the middle of a session: a request is in flight, and an earlier
  reply left an intent and one entity.\<close>

definition sampleStore :: VoiceStore where
  "sampleStore =
     initialStore\<lparr>isProcessing := True, connectionStatus := Connected,
       currentIntent := Some ''check_availability'',
       extractedEntities := Some [(''date'', ''Monday'')]\<rparr>"

text \<open>A response that reports an error next to every other field.\<close>

definition errorResponse :: VoiceResponse where
  "errorResponse =
     \<lparr>r_transcript = Some ''book an appointment'',
      r_ai_response =
        Some \<lparr>ai_text = ''Sure, with which doctor?'', ai_intent = ''book_appointment'',
              extracted_info = Some [(''doctor'', ''Lee'')]\<rparr>,
      r_audio_response = Some ''UklGRg=='',
      r_timestamp = ''2024-01-01T10:00:01Z'',
      r_error = Some ''speech unintelligible'',
      r_appointment_action = None\<rparr>"

text \<open>The same host, parsing every text to that response.\<close>

definition errorHost :: host where
  "errorHost = sampleHost\<lparr>JSON_parse := (\<lambda>d. Some errorResponse)\<rparr>"

text \<open>A response whose \<open>error\<close> field is there and empty.\<close>

definition emptyErrorResponse :: VoiceResponse where
  "emptyErrorResponse =
     \<lparr>r_transcript = Some ''book an appointment'', r_ai_response = None,
      r_audio_response = None, r_timestamp = ''2024-01-01T10:00:01Z'',
      r_error = Some [], r_appointment_action = None\<rparr>"

text \<open>A transcript and a reply, no error, no audio.\<close>

definition bookingResponse :: VoiceResponse where
  "bookingResponse =
     \<lparr>r_transcript = Some ''book an appointment'',
      r_ai_response =
        Some \<lparr>ai_text = ''Sure, with which doctor?'', ai_intent = ''book_appointment'',
              extracted_info = Some [(''doctor'', ''Lee'')]\<rparr>,
      r_audio_response = None,
      r_timestamp = ''2024-01-01T10:00:00Z'',
      r_error = None,
      r_appointment_action = None\<rparr>"

text \<open>A reply next to a transcript and an audio payload that are there and empty.\<close>

definition emptyTranscriptResponse :: VoiceResponse where
  "emptyTranscriptResponse =
     \<lparr>r_transcript = Some [],
      r_ai_response =
        Some \<lparr>ai_text = ''Sure, with which doctor?'', ai_intent = ''book_appointment'',
              extracted_info = Some []\<rparr>,
      r_audio_response = Some [],
      r_timestamp = ''2024-01-01T10:00:00Z'',
      r_error = None,
      r_appointment_action = None\<rparr>"

text \<open>A reply whose text is empty, with an intent and an entity set.\<close>

definition emptyTextResponse :: VoiceResponse where
  "emptyTextResponse =
     \<lparr>r_transcript = Some ''hello'',
      r_ai_response =
        Some \<lparr>ai_text = [], ai_intent = ''book_appointment'',
              extracted_info = Some [(''doctor'', ''Lee'')]\<rparr>,
      r_audio_response = None,
      r_timestamp = ''2024-01-01T10:00:00Z'',
      r_error = None,
      r_appointment_action = None\<rparr>"

text \<open>The hook after one recording was started, stopped and delivered one chunk,
  with no socket ever opened.\<close>

definition stoppedWorld :: world where
  "stoppedWorld =
     recorder_ondataavailable ''OggS''
       (stopRecording (startRecording_resume True True (startRecording initialWorld)))"

text \<open>The hook while its first recording runs.\<close>

definition recordingWorld :: world where
  "recordingWorld = startRecording_resume True True (startRecording initialWorld)"

section \<open>Unfolding rules\<close>

lemmas store_defs = setRecording_def setProcessing_def setPlaying_def setConnectionStatus_def
  setError_def addMessage_def updateCurrentIntent_def updateExtractedEntities_def

lemmas response_defs = processVoiceResponse_def handleError_def handleFields_def
  addUserMessage_def processAiResponse_def playAudio_def logAppointmentAction_def
  errorMessage_def userMessage_def aiMessage_def

lemmas sample_defs = sampleHost_def sampleStore_def initialStore_def errorResponse_def
  emptyErrorResponse_def bookingResponse_def emptyTranscriptResponse_def emptyTextResponse_def

lemmas connect_eval = initialWorld_def initialStore_def connect_def currentSocketOpen_def
  liveSockets_def setConnectionStatus_def

lemmas rec_eval = stoppedWorld_def recordingWorld_def initialWorld_def initialStore_def
  startRecording_def startRecording_resume_def stopRecording_def recorder_ondataavailable_def
  setRecording_def setProcessing_def Let_def

section \<open>The processing flag\<close>

lemma processVoiceResponse_clears_processing:
  "isProcessing (fst (processVoiceResponse h r s)) = False"
  by (simp add: response_defs store_defs Let_def split: option.splits prod.splits)

lemma ws_onmessage_clears_processing:
  "isProcessing (store (ws_onmessage h d w)) = False"
  by (simp add: ws_onmessage_def emit_def setProcessing_def Let_def
      split: option.splits prod.splits)

lemma receive_snoc: "receive (ms @ [(h, d)]) w = ws_onmessage h d (receive ms w)"
  by (simp add: receive_def)

text \<open>
  C1. The processing flag is false right after an inbound message is handled, whatever
  the message and whatever the state before: after \<open>processVoiceResponse\<close> on any
  response (with or without an error), after the socket's message handler on any
  payload (one that parses or one that does not), hence after the last message of any
  run of messages; the socket's error and close handlers clear the flag as well.
\<close>

theorem processing_flag_false_after_every_inbound_message:
  "isProcessing (fst (processVoiceResponse h r s)) = False
   \<and> isProcessing (store (ws_onmessage h d w)) = False
   \<and> isProcessing (store (receive (ms @ [(h, d)]) w)) = False
   \<and> isProcessing (store (ws_onerror w)) = False
   \<and> isProcessing (store (ws_onclose i w)) = False"
  by (simp add: processVoiceResponse_clears_processing ws_onmessage_clears_processing
      receive_snoc ws_onerror_def ws_onclose_def emit_def setProcessing_def)

section \<open>Responses that report an error\<close>

text \<open>
  C2, as amended. For every inbound response whose \<open>error\<close> field is a non-empty
  string, \<open>processVoiceResponse\<close> sets the session error to it, appends exactly one
  Turn (an assistant Turn whose text ends with the error text), clears the processing
  flag, changes no other field of the session and starts no playback, whichever other
  fields the response carries.
\<close>

theorem truthy_error_appends_one_assistant_turn_only:
  assumes "r_error r = Some e" and "e \<noteq> []"
  shows "processVoiceResponse h r s =
           (s\<lparr>isProcessing := False, error := Some e,
              messages := messages s @
                [\<lparr>msg_id = msgId h 0, type = Assistant,
                  content = ''I'm sorry, there was an error: '' @ e, timestamp = nowISO h,
                  confidence = None, intent = None, entities = None, urgency = None,
                  isAudio = None, processing = None\<rparr>]\<rparr>, [])"
  using assms
  by (simp add: processVoiceResponse_def handleError_def errorMessage_def store_defs)

text \<open>The amended statement at a response that carries an error, a transcript, a reply
  and audio: one assistant Turn, the error set, nothing else.\<close>

theorem truthy_error_appends_one_assistant_turn_only_witness:
  "r_error errorResponse = Some ''speech unintelligible''
   \<and> ''speech unintelligible'' \<noteq> []
   \<and> processVoiceResponse sampleHost errorResponse sampleStore =
       (sampleStore\<lparr>isProcessing := False, error := Some ''speech unintelligible'',
          messages :=
            [\<lparr>msg_id = ''msg_1704103200000_0.25'', type = Assistant,
              content = ''I'm sorry, there was an error: speech unintelligible'',
              timestamp = ''2024-01-01T10:00:02.000Z'',
              confidence = None, intent = None, entities = None, urgency = None,
              isAudio = None, processing = None\<rparr>]\<rparr>, [])"
  using truthy_error_appends_one_assistant_turn_only
    [of errorResponse "''speech unintelligible''" sampleHost sampleStore]
  by (simp add: sample_defs)

text \<open>
  A response whose \<open>error\<close> field is present and empty is handled as a success: the
  session error ends up unset and the one Turn appended is the user Turn of the
  transcript.
\<close>

theorem empty_error_is_handled_as_success:
  "r_error emptyErrorResponse = Some []
   \<and> error (fst (processVoiceResponse sampleHost emptyErrorResponse sampleStore)) = None
   \<and> map type (messages (fst (processVoiceResponse sampleHost emptyErrorResponse sampleStore)))
       = [User]"
  by (simp add: sample_defs response_defs store_defs)

text \<open>The socket's message handler passes the audio of a response to
  \<open>playAudioResponse\<close> after \<open>processVoiceResponse\<close> returns, error or not.\<close>

lemma ws_onmessage_plays_audio_next_to_error:
  "trace (ws_onmessage errorHost [] initialWorld) = [AudioContextPlay ''UklGRg=='']"
  by (simp add: ws_onmessage_def errorHost_def sample_defs response_defs store_defs
      playAudioResponse_def emit_def initialWorld_def)

section \<open>Responses with a transcript and a reply\<close>

text \<open>
  C3, as amended. For every inbound response whose error is absent or empty, whose
  transcript is a non-empty string and whose \<open>ai_response\<close> has a non-empty text,
  handling appends exactly two Turns, in this order: a user Turn with the transcript,
  marked audio-origin, then an assistant Turn with the reply's text, whose audio-origin
  flag says whether \<open>audio_response\<close> is present and non-empty, carrying the reply's
  intent and entities.
\<close>

theorem transcript_and_reply_append_user_then_assistant:
  assumes "\<not> truthy (r_error r)"
    and "r_transcript r = Some t" and "t \<noteq> []"
    and "r_ai_response r = Some ai" and "ai_text ai \<noteq> []"
  shows "messages (fst (processVoiceResponse h r s)) =
           messages s @
             [\<lparr>msg_id = msgId h 0, type = User, content = t, timestamp = r_timestamp r,
               confidence = None, intent = None, entities = None, urgency = None,
               isAudio = Some True, processing = None\<rparr>,
              \<lparr>msg_id = msgId h 1, type = Assistant, content = ai_text ai,
               timestamp = r_timestamp r, confidence = None, intent = Some (ai_intent ai),
               entities = extracted_info ai, urgency = None,
               isAudio = Some (truthy (r_audio_response r)), processing = None\<rparr>]"
  using assms
  by (cases "r_error r")
     (simp_all add: response_defs store_defs Let_def split: option.splits prod.splits)

text \<open>The amended statement at the booking response: the user's words, then the
  assistant's reply with its intent and entities and no audio.\<close>

theorem transcript_and_reply_append_user_then_assistant_witness:
  "\<not> truthy (r_error bookingResponse)
   \<and> r_transcript bookingResponse = Some ''book an appointment''
   \<and> ''book an appointment'' \<noteq> []
   \<and> r_ai_response bookingResponse =
       Some \<lparr>ai_text = ''Sure, with which doctor?'', ai_intent = ''book_appointment'',
             extracted_info = Some [(''doctor'', ''Lee'')]\<rparr>
   \<and> ''Sure, with which doctor?'' \<noteq> []
   \<and> messages (fst (processVoiceResponse sampleHost bookingResponse sampleStore)) =
        [\<lparr>msg_id = ''msg_1704103200000_0.25'', type = User, content = ''book an appointment'',
          timestamp = ''2024-01-01T10:00:00Z'',
          confidence = None, intent = None, entities = None, urgency = None,
          isAudio = Some True, processing = None\<rparr>,
         \<lparr>msg_id = ''msg_1704103200001_0.75'', type = Assistant,
          content = ''Sure, with which doctor?'',
          timestamp = ''2024-01-01T10:00:00Z'', confidence = None,
          intent = Some ''book_appointment'',
          entities = Some [(''doctor'', ''Lee'')], urgency = None,
          isAudio = Some False, processing = None\<rparr>]"
  using transcript_and_reply_append_user_then_assistant
    [of bookingResponse "''book an appointment''"
      "\<lparr>ai_text = ''Sure, with which doctor?'', ai_intent = ''book_appointment'',
        extracted_info = Some [(''doctor'', ''Lee'')]\<rparr>" sampleHost sampleStore]
  by (simp add: sample_defs)

text \<open>
  A response without error that contains a transcript, a reply and an audio payload,
  the transcript and the payload being empty strings: one Turn is appended, not two,
  and the assistant Turn is not marked audio-origin although \<open>audio_response\<close> is
  present.
\<close>

theorem empty_transcript_appends_one_turn:
  "r_error emptyTranscriptResponse = None
   \<and> r_transcript emptyTranscriptResponse = Some []
   \<and> r_audio_response emptyTranscriptResponse = Some []
   \<and> r_ai_response emptyTranscriptResponse =
       Some \<lparr>ai_text = ''Sure, with which doctor?'', ai_intent = ''book_appointment'',
             extracted_info = Some []\<rparr>
   \<and> map type
        (messages (fst (processVoiceResponse sampleHost emptyTranscriptResponse sampleStore)))
       = [Assistant]
   \<and> map isAudio
        (messages (fst (processVoiceResponse sampleHost emptyTranscriptResponse sampleStore)))
       = [Some False]"
  by (simp add: sample_defs response_defs store_defs)

section \<open>Opening the connection\<close>

lemma connect_noop_when_open: "currentSocketOpen w \<Longrightarrow> connect w = w"
  by (simp add: connect_def)

lemma connect_opens_when_not_open:
  "\<not> currentSocketOpen w \<Longrightarrow>
     connectionStatus (store (connect w)) = Connecting
     \<and> sockets (connect w) = sockets w @ [\<lparr>readyState = CONNECTING, sent = []\<rparr>]
     \<and> websocketRef (connect w) = Some (length (sockets w))"
  by (simp add: connect_def setConnectionStatus_def)

lemma ws_onopen_sets_connected: "connectionStatus (store (ws_onopen i w)) = Connected"
  by (simp add: ws_onopen_def emit_def setConnectionStatus_def)

text \<open>
  C4. \<open>connect\<close> at a hook that is already connecting: after the first call the status
  is \<open>connecting\<close> and one socket is opening; the second call is not a no-op, it opens
  a second socket and moves the ref to it, so two transports are live. The same state
  is reached from the interface by two reconnection requests in a row after a
  transport error, once both timers have run.
\<close>

theorem connect_while_connecting_opens_second_socket:
  "connectionStatus (store (connect initialWorld)) = Connecting
   \<and> map readyState (sockets (connect initialWorld)) = [CONNECTING]
   \<and> map readyState (sockets (connect (connect initialWorld))) = [CONNECTING, CONNECTING]
   \<and> websocketRef (connect (connect initialWorld)) = Some 1
   \<and> liveSockets (connect (connect initialWorld)) = 2
   \<and> liveSockets
        (reconnectTimer_fires (reconnectTimer_fires
           (resetConnection (resetConnection (ws_onerror (connect initialWorld)))))) = 2"
  by (simp add: connect_eval reconnectTimer_fires_def resetConnection_def closeCurrent_def
      ws_close_def ws_onerror_def emit_def setProcessing_def setError_def Let_def)

section \<open>Sending while the connection is not open\<close>

text \<open>
  C5, as amended. For every send of a recorded payload attempted while the current
  socket is not open, the payload is not transmitted, the failure is written to the
  console and the processing flag is cleared; nothing else changes: no Turn is
  appended to the message log and the session error is left as it was.
\<close>

theorem send_while_not_open_logs_and_clears_processing:
  assumes "\<not> currentSocketOpen w"
  shows "sendAudioToServer audioBlob w =
           w\<lparr>store := (store w)\<lparr>isProcessing := False\<rparr>,
             trace := trace w @ [ConsoleError ''WebSocket not connected'']\<rparr>"
  using assms by (simp add: sendAudioToServer_def emit_def setProcessing_def)

text \<open>The amended statement at a hook that recorded an utterance and never opened a
  socket.\<close>

theorem send_while_not_open_logs_and_clears_processing_witness:
  "\<not> currentSocketOpen stoppedWorld
   \<and> isProcessing (store stoppedWorld)
   \<and> sendAudioToServer ''OggS'' stoppedWorld =
       stoppedWorld\<lparr>store := (store stoppedWorld)\<lparr>isProcessing := False\<rparr>,
         trace := [ConsoleError ''WebSocket not connected'']\<rparr>"
  using send_while_not_open_logs_and_clears_processing [of stoppedWorld "''OggS''"]
  by (simp add: rec_eval currentSocketOpen_def)

text \<open>
  A recording that stops while no socket is open: after the recorder's stop handler
  has tried to send the payload, the message log is still empty and no session error
  is set; the console line is all there is.
\<close>

theorem send_while_not_open_appends_no_turn:
  "\<not> currentSocketOpen stoppedWorld
   \<and> messages (store (recorder_onstop 0 stoppedWorld)) = []
   \<and> error (store (recorder_onstop 0 stoppedWorld)) = None
   \<and> trace (recorder_onstop 0 stoppedWorld) = [ConsoleError ''WebSocket not connected'']"
  by (simp add: rec_eval recorder_onstop_def sendAudioToServer_def currentSocketOpen_def
      emit_def)

section \<open>Starting and stopping a recording\<close>

lemma length_map_at: "length (map_at n f xs) = length xs"
  by (induction n f xs rule: map_at.induct) simp_all

lemma stopRecording_noop_when_not_recording:
  "\<not> isRecording (store w) \<Longrightarrow> stopRecording w = w"
  by (simp add: stopRecording_def split: option.splits)

lemma toggleRecording_while_recording_starts_nothing:
  "isRecording (store w) \<Longrightarrow>
     pendingGetUserMedia (toggleRecording w) = pendingGetUserMedia w
     \<and> length (recorders (toggleRecording w)) = length (recorders w)"
  by (simp add: toggleRecording_def stopRecording_def length_map_at split: option.splits)

text \<open>
  C6. \<open>startRecording\<close> at a hook that is already recording: the recording flag is
  true and one recorder captures; a second call, once the microphone is granted,
  begins a second capture on a second stream, and two recorders capture at once. The
  same happens through \<open>toggleRecording\<close> alone, called twice before the first
  microphone request settles.
\<close>

theorem start_while_recording_begins_second_capture:
  "isRecording (store recordingWorld) = True
   \<and> activeRecorders recordingWorld = 1
   \<and> activeRecorders (startRecording_resume True True (startRecording recordingWorld)) = 2
   \<and> streams (startRecording_resume True True (startRecording recordingWorld)) = [True, True]
   \<and> activeRecorders
        (startRecording_resume True True (startRecording_resume True True
           (toggleRecording (toggleRecording initialWorld)))) = 2"
  by (simp add: rec_eval activeRecorders_def toggleRecording_def)

section \<open>Extracted entities\<close>

text \<open>
  C7, as amended. For every inbound response whose error is absent or empty and whose
  \<open>ai_response\<close> has a non-empty text and carries an extracted-entity set, the session's
  extracted entities after handling are exactly that set: nothing of the prior set is
  merged in.
\<close>

theorem reply_entities_replace_session_entities:
  assumes "\<not> truthy (r_error r)"
    and "r_ai_response r = Some ai" and "ai_text ai \<noteq> []"
    and "extracted_info ai = Some es"
  shows "extractedEntities (fst (processVoiceResponse h r s)) = Some es"
  using assms
  by (cases "r_error r")
     (simp_all add: response_defs store_defs Let_def split: option.splits prod.splits)

text \<open>The amended statement at the booking response: the session held a date, the
  reply names a doctor, and the session then holds the doctor only.\<close>

theorem reply_entities_replace_session_entities_witness:
  "\<not> truthy (r_error bookingResponse)
   \<and> r_ai_response bookingResponse =
       Some \<lparr>ai_text = ''Sure, with which doctor?'', ai_intent = ''book_appointment'',
             extracted_info = Some [(''doctor'', ''Lee'')]\<rparr>
   \<and> ''Sure, with which doctor?'' \<noteq> []
   \<and> extractedEntities sampleStore = Some [(''date'', ''Monday'')]
   \<and> extractedEntities (fst (processVoiceResponse sampleHost bookingResponse sampleStore))
       = Some [(''doctor'', ''Lee'')]"
  using reply_entities_replace_session_entities
    [of bookingResponse
      "\<lparr>ai_text = ''Sure, with which doctor?'', ai_intent = ''book_appointment'',
        extracted_info = Some [(''doctor'', ''Lee'')]\<rparr>" "[(''doctor'', ''Lee'')]"
      sampleHost sampleStore]
  by (simp add: sample_defs)

text \<open>
  Two responses that carry an entity set and leave the session's entities as they
  were: a reply whose text is empty, and a reply that arrives next to an error.
\<close>

theorem unprocessed_reply_keeps_prior_entities:
  "r_ai_response emptyTextResponse =
     Some \<lparr>ai_text = [], ai_intent = ''book_appointment'',
           extracted_info = Some [(''doctor'', ''Lee'')]\<rparr>
   \<and> extractedEntities (fst (processVoiceResponse sampleHost emptyTextResponse sampleStore))
       = Some [(''date'', ''Monday'')]
   \<and> r_ai_response errorResponse =
       Some \<lparr>ai_text = ''Sure, with which doctor?'', ai_intent = ''book_appointment'',
             extracted_info = Some [(''doctor'', ''Lee'')]\<rparr>
   \<and> extractedEntities (fst (processVoiceResponse sampleHost errorResponse sampleStore))
       = Some [(''date'', ''Monday'')]"
  by (simp add: sample_defs response_defs store_defs)

section \<open>Clearing the conversation\<close>

text \<open>
  C8. For every store state, \<open>clearMessages\<close> empties the message log and clears the
  current intent, the extracted entities and the suggestions; the connection status is
  what it was.
\<close>

theorem clearMessages_clears_log_keeps_connection:
  "messages (clearMessages s) = []
   \<and> currentIntent (clearMessages s) = None
   \<and> extractedEntities (clearMessages s) = None
   \<and> suggestions (clearMessages s) = None
   \<and> connectionStatus (clearMessages s) = connectionStatus s"
  by (simp add: clearMessages_def)

section \<open>A reply with an empty text\<close>

text \<open>
  C9. For every inbound response whose error is absent or empty and whose \<open>ai_response\<close>
  is present with the empty string as its text, handling leaves the session's current
  intent and extracted entities as they were and appends no assistant Turn: the log
  before is a prefix of the log after, and no Turn after that prefix is an assistant's.
\<close>

theorem empty_reply_text_appends_no_assistant_turn:
  assumes "\<not> truthy (r_error r)"
    and "r_ai_response r = Some ai" and "ai_text ai = []"
  shows "currentIntent (fst (processVoiceResponse h r s)) = currentIntent s
         \<and> extractedEntities (fst (processVoiceResponse h r s)) = extractedEntities s
         \<and> take (length (messages s)) (messages (fst (processVoiceResponse h r s))) = messages s
         \<and> filter (\<lambda>m. type m = Assistant)
              (drop (length (messages s)) (messages (fst (processVoiceResponse h r s)))) = []"
  using assms
  by (cases "r_error r")
     (simp_all add: response_defs store_defs Let_def split: option.splits prod.splits)

text \<open>The statement at a reply with an empty text, an intent and an entity set: the
  session keeps its earlier intent and entity, and the log holds no assistant Turn.\<close>

theorem empty_reply_text_appends_no_assistant_turn_witness:
  "\<not> truthy (r_error emptyTextResponse)
   \<and> r_ai_response emptyTextResponse =
       Some \<lparr>ai_text = [], ai_intent = ''book_appointment'',
             extracted_info = Some [(''doctor'', ''Lee'')]\<rparr>
   \<and> currentIntent (fst (processVoiceResponse sampleHost emptyTextResponse sampleStore))
       = Some ''check_availability''
   \<and> extractedEntities (fst (processVoiceResponse sampleHost emptyTextResponse sampleStore))
       = Some [(''date'', ''Monday'')]
   \<and> filter (\<lambda>m. type m = Assistant)
        (messages (fst (processVoiceResponse sampleHost emptyTextResponse sampleStore))) = []"
  using empty_reply_text_appends_no_assistant_turn
    [of emptyTextResponse
      "\<lparr>ai_text = [], ai_intent = ''book_appointment'',
        extracted_info = Some [(''doctor'', ''Lee'')]\<rparr>" sampleHost sampleStore]
  by (simp add: sample_defs)

section \<open>What clearing keeps\<close>

text \<open>
  C10. For every store state, \<open>clearMessages\<close> leaves the urgency level and the session
  error as they were, so an emergency indicator and a displayed error survive it;
  \<open>reset\<close> clears both, together with the log, the transcript, the intent, the
  entities, the suggestions and the three activity flags.
\<close>

theorem clearMessages_keeps_urgency_and_error_reset_clears:
  "urgencyLevel (clearMessages s) = urgencyLevel s
   \<and> error (clearMessages s) = error s
   \<and> urgencyLevel (reset s) = None
   \<and> error (reset s) = None
   \<and> messages (reset s) = []
   \<and> currentTranscript (reset s) = []
   \<and> currentIntent (reset s) = None
   \<and> extractedEntities (reset s) = None
   \<and> suggestions (reset s) = None
   \<and> isRecording (reset s) = False
   \<and> isProcessing (reset s) = False
   \<and> isPlaying (reset s) = False"
  by (simp add: clearMessages_def reset_def)

end
